theory Spec2Isabelle
  imports Main "HOL-Library.Sublist" "HOL-Library.Log_Nat" "HOL-Library.AList"
begin

section \<open>The parsed document\<close>

text \<open>
  The supplier class reads a page that BeautifulSoup has parsed with \<^verbatim>\<open>html.parser\<close>.
  The tree is the library's: an element (\<^verbatim>\<open>Tag\<close>) has a name, an attribute dictionary and
  a list of children (\<^verbatim>\<open>contents\<close>); a text node is a \<^verbatim>\<open>NavigableString\<close>. The parser
  keeps an ordinary attribute as one string and splits the multi-valued ones (\<^verbatim>\<open>class\<close>)
  into a list of strings. Comments, doctypes and processing instructions are left out of
  the model. The \<^verbatim>\<open>BeautifulSoup\<close> object itself is a tag named \<^verbatim>\<open>[document]\<close>.

  A Python string is modelled as a \<^typ>\<open>string\<close> whose characters are the code points
  0 to 255; code points above 255 are outside the model.
\<close>

datatype attr_value = Str string | StrList "string list"

datatype node = Tag string "(string \<times> attr_value) list" "node list" | NavigableString string

datatype py_error = IndexError | ZeroDivisionError | OverflowError | AttributeError

text \<open>\<^verbatim>\<open>node.get_text()\<close>: a string is its own text, a tag's text is the concatenation of
  the strings below it, in document order.\<close>

fun get_text :: "node \<Rightarrow> string" where
  "get_text (NavigableString s) = s"
| "get_text (Tag name attrs cs) = concat (map get_text cs)"

text \<open>The descendants of a node in document order (a parent before its children), which is
  the order in which \<^verbatim>\<open>find\<close> and \<^verbatim>\<open>find_all\<close> visit them.\<close>

fun descendants :: "node \<Rightarrow> node list" where
  "descendants (NavigableString s) = []"
| "descendants (Tag name attrs cs) = concat (map (\<lambda>c. c # descendants c) cs)"

fun join_space :: "string list \<Rightarrow> string" where
  "join_space [] = []"
| "join_space [v] = v"
| "join_space (v # w # vs) = v @ CHR '' '' # join_space (w # vs)"

text \<open>An attribute filter \<^verbatim>\<open>{key: wanted}\<close> with a string: a single-valued attribute matches
  when it equals the string; a multi-valued one when one of its values does, or the values
  joined by spaces do. A tag without the attribute does not match a non-empty string; the
  filters of the source are non-empty strings.\<close>

fun attr_matches :: "attr_value \<Rightarrow> string \<Rightarrow> bool" where
  "attr_matches (Str v) wanted = (v = wanted)"
| "attr_matches (StrList vs) wanted = (List.member vs wanted \<or> join_space vs = wanted)"

fun tag_matches :: "string \<Rightarrow> (string \<times> string) list \<Rightarrow> node \<Rightarrow> bool" where
  "tag_matches tag_name wanted (NavigableString s) = False"
| "tag_matches tag_name wanted (Tag name attrs cs) =
     (name = tag_name \<and>
      list_all (\<lambda>(k, w). case map_of attrs k of None \<Rightarrow> False | Some v \<Rightarrow> attr_matches v w) wanted)"

definition bs_find_all :: "node \<Rightarrow> string \<Rightarrow> (string \<times> string) list \<Rightarrow> node list" where
  "bs_find_all t tag_name wanted = filter (tag_matches tag_name wanted) (descendants t)"

definition bs_find :: "node \<Rightarrow> string \<Rightarrow> (string \<times> string) list \<Rightarrow> node option" where
  "bs_find t tag_name wanted =
     (case bs_find_all t tag_name wanted of [] \<Rightarrow> None | found # rest \<Rightarrow> Some found)"

section \<open>Python strings\<close>

text \<open>\<^verbatim>\<open>str.lower()\<close> on the code points 0 to 255: the ASCII capitals and the Latin-1 capitals
  (192 to 222 without the multiplication sign 215) move up by 32.\<close>

definition lower_char :: "char \<Rightarrow> char" where
  "lower_char c =
     (let n = (of_char c :: nat) in
      if (65 \<le> n \<and> n \<le> 90) \<or> (192 \<le> n \<and> n \<le> 222 \<and> n \<noteq> 215)
      then char_of (n + 32) else c)"

definition lower :: "string \<Rightarrow> string" where
  "lower s = map lower_char s"

text \<open>The characters that \<^verbatim>\<open>str.isspace\<close>, \<^verbatim>\<open>str.strip\<close> and the pattern \<^verbatim>\<open>\s\<close> treat as
  whitespace, among the code points 0 to 255: tab to carriage return, the four separators
  28 to 31, the space, NEL (133) and the no-break space (160).\<close>

definition isspace :: "char \<Rightarrow> bool" where
  "isspace c =
     (let n = (of_char c :: nat) in
      (9 \<le> n \<and> n \<le> 13) \<or> (28 \<le> n \<and> n \<le> 32) \<or> n = 133 \<or> n = 160)"

definition strip :: "string \<Rightarrow> string" where
  "strip s = rev (dropWhile isspace (rev (dropWhile isspace s)))"

text \<open>\<^verbatim>\<open>re.sub(r'\s+', ' ', s)\<close>: every maximal run of whitespace becomes one space.\<close>

function collapse_ws :: "string \<Rightarrow> string" where
  "collapse_ws [] = []"
| "collapse_ws (c # cs) =
     (if isspace c then CHR '' '' # collapse_ws (dropWhile isspace cs)
      else c # collapse_ws cs)"
  by pat_completeness auto
termination
  by (relation "measure length") (auto simp: length_dropWhile_le less_Suc_eq_le)

definition isdigit :: "char \<Rightarrow> bool" where
  "isdigit c = (let n = (of_char c :: nat) in 48 \<le> n \<and> n \<le> 57)"

section \<open>Navigating the tree\<close>

text \<open>A step of \<^verbatim>\<open>_find_tag\<close>: a tag name alone, or a tuple of a tag name and an attribute
  dictionary. (An argument of any other type is skipped by the source; the type of the
  steps has no such value.)\<close>

datatype step = TagName string | TagAttrs string "(string \<times> string) list"

fun find_tag :: "node option \<Rightarrow> step list \<Rightarrow> node option" where
  "find_tag None [] = None"
| "find_tag (Some (NavigableString s)) [] = None"
| "find_tag (Some (Tag name attrs cs)) [] = Some (Tag name attrs cs)"
| "find_tag None (arg # args) = None"
| "find_tag (Some (NavigableString s)) (arg # args) = None"
| "find_tag (Some (Tag name attrs cs)) (TagAttrs tag_name wanted # args) =
     (case bs_find (Tag name attrs cs) tag_name wanted of
        None \<Rightarrow> None
      | Some current_tag \<Rightarrow> find_tag (Some current_tag) args)"
| "find_tag (Some (Tag name attrs cs)) (TagName tag_name # args) =
     (case bs_find (Tag name attrs cs) tag_name [] of
        None \<Rightarrow> None
      | Some current_tag \<Rightarrow> find_tag (Some current_tag) args)"

text \<open>\<^verbatim>\<open>_find_text\<close>. A tag is always true in a condition, so the branch is taken whenever
  \<^verbatim>\<open>_find_tag\<close> returns a tag; \<^verbatim>\<open>found_tag.contents[0]\<close> then raises \<^verbatim>\<open>IndexError\<close> when the
  tag has no children. (\<^verbatim>\<open>_find_tag\<close> returns tags only, so the case of a string, which has
  no \<^verbatim>\<open>contents\<close>, is never reached.)\<close>

definition find_text :: "node option \<Rightarrow> step list \<Rightarrow> py_error + string" where
  "find_text tag args =
     (case find_tag tag args of
        None \<Rightarrow> Inr []
      | Some (NavigableString s) \<Rightarrow> Inl AttributeError
      | Some (Tag name attrs []) \<Rightarrow> Inl IndexError
      | Some (Tag name attrs (first # rest)) \<Rightarrow> Inr (strip (collapse_ws (get_text first))))"

section \<open>The category path\<close>

text \<open>The pattern \<^verbatim>\<open>^(?:[#0-9])|(?:(?:mm|#|inch|\"))\<close> under \<^verbatim>\<open>re.search\<close>: the first
  alternative is anchored at the start of the string, the second matches anywhere.\<close>

definition size_pattern :: "string \<Rightarrow> bool" where
  "size_pattern s =
     ((case s of [] \<Rightarrow> False | c # cs \<Rightarrow> c = CHR ''#'' \<or> isdigit c)
      \<or> sublist ''mm'' s \<or> sublist ''#'' s \<or> sublist ''inch'' s \<or> sublist [CHR 0x22] s)"

text \<open>The loop over the links of the breadcrumb, with the list it appends to.\<close>

fun collect_category_path :: "node list \<Rightarrow> string list \<Rightarrow> string list" where
  "collect_category_path [] category_path = category_path"
| "collect_category_path (tag # tags) category_path =
     (if lower (get_text tag) = ''product catalog''
      then collect_category_path tags category_path
      else collect_category_path tags (category_path @ [get_text tag]))"

text \<open>\<^verbatim>\<open>category_path[-1]\<close> raises \<^verbatim>\<open>IndexError\<close> on the empty list, at either of the two
  checks.\<close>

definition pop_size :: "string list \<Rightarrow> py_error + string list" where
  "pop_size category_path =
     (if category_path = [] then Inl IndexError
      else if size_pattern (last category_path) then Inr (butlast category_path)
      else Inr category_path)"

definition pop_size_label :: "string list \<Rightarrow> py_error + string list" where
  "pop_size_label category_path =
     (if category_path = [] then Inl IndexError
      else if prefix ''Size: '' (last category_path) then Inr (butlast category_path)
      else Inr category_path)"

definition get_category_path :: "node \<Rightarrow> py_error + string list" where
  "get_category_path content_main =
     (case find_tag (Some content_main) [TagName ''nav''] of
        None \<Rightarrow> Inr []
      | Some nav \<Rightarrow>
          (let nav_a_tags = bs_find_all nav ''a'' [] in
           if nav_a_tags = [] then Inr []
           else (case pop_size (collect_category_path nav_a_tags []) of
                   Inl e \<Rightarrow> Inl e
                 | Inr category_path \<Rightarrow> pop_size_label category_path)))"

section \<open>Python numbers\<close>

text \<open>
  A Python \<^verbatim>\<open>float\<close> is an IEEE 754 binary64 number. A finite one is modelled by its exact
  rational value (the two zeros are one value, as they are under \<^verbatim>\<open>==\<close>); every operation
  rounds its exact result to the nearest double, ties to the even significand. The NaNs
  are one value of the model.
\<close>

datatype pyfloat = Fin rat | PlusInf | MinusInf | NaN

definition pow2 :: "int \<Rightarrow> rat" where
  "pow2 k = (if 0 \<le> k then 2 ^ nat k else 1 / 2 ^ nat (- k))"

definition round_half_even :: "rat \<Rightarrow> int" where
  "round_half_even x =
     (let f = \<lfloor>x\<rfloor>; r = x - of_int f in
      if r < 1 / 2 then f else if 1 / 2 < r then f + 1 else if even f then f else f + 1)"

text \<open>The exponent of a positive rational: the \<open>k\<close> with \<open>2^k \<le> x < 2^(k+1)\<close>.\<close>

definition floor_log2 :: "rat \<Rightarrow> int" where
  "floor_log2 x = (if 1 \<le> x then bitlen \<lfloor>x\<rfloor> - 1 else - bitlen (\<lceil>1 / x\<rceil> - 1))"

text \<open>Rounding to binary64: the result is \<open>m * 2^e\<close> with a significand \<open>m\<close> of at most 53 bits;
  the least exponent is \<open>-1074\<close> (subnormals) and the largest double is \<open>(2^53 - 1) * 2^971\<close>,
  so a result with a larger exponent, or with \<open>m = 2^53\<close> at the exponent 971, is an
  infinity.\<close>

definition to_double :: "rat \<Rightarrow> pyfloat" where
  "to_double x =
     (if x = 0 then Fin 0
      else let a = \<bar>x\<bar>;
               e = max (floor_log2 a - 52) (- 1074);
               m = round_half_even (a / pow2 e)
           in if 971 < e \<or> (e = 971 \<and> 2 ^ 53 \<le> m)
              then (if 0 < x then PlusInf else MinusInf)
              else Fin (if 0 < x then of_int m * pow2 e else - (of_int m * pow2 e)))"

text \<open>\<^verbatim>\<open>x / n\<close> for a float and an int: the int is converted to a float first
  (\<^verbatim>\<open>OverflowError\<close> when it is too large), a zero divisor raises \<^verbatim>\<open>ZeroDivisionError\<close>, and
  the quotient is rounded.\<close>

definition truediv :: "pyfloat \<Rightarrow> int \<Rightarrow> py_error + pyfloat" where
  "truediv x n =
     (case to_double (of_int n) of
        Fin d \<Rightarrow>
          if d = 0 then Inl ZeroDivisionError
          else (case x of
                  Fin a \<Rightarrow> Inr (to_double (a / d))
                | PlusInf \<Rightarrow> Inr (if 0 < d then PlusInf else MinusInf)
                | MinusInf \<Rightarrow> Inr (if 0 < d then MinusInf else PlusInf)
                | NaN \<Rightarrow> Inr NaN)
      | _ \<Rightarrow> Inl OverflowError)"

text \<open>\<^verbatim>\<open>round(x, 3)\<close>: the exact value of the double is rounded to three decimal places,
  ties to even, and the decimal is converted back to a double. Infinities and NaN are
  returned as they are.\<close>

definition round3 :: "pyfloat \<Rightarrow> pyfloat" where
  "round3 x =
     (case x of
        Fin v \<Rightarrow> to_double (of_int (round_half_even (v * 1000)) / 1000)
      | _ \<Rightarrow> x)"

definition digit_val :: "char \<Rightarrow> nat" where
  "digit_val c = of_char c - 48"

definition digits_val :: "string \<Rightarrow> nat" where
  "digits_val ds = foldl (\<lambda>acc c. 10 * acc + digit_val c) 0 ds"

text \<open>The grammar \<^verbatim>\<open>digit (["_"] digit)*\<close> of the digit groups that \<^verbatim>\<open>int\<close> and \<^verbatim>\<open>float\<close>
  accept.\<close>

fun digitpart :: "string \<Rightarrow> bool" where
  "digitpart [] = False"
| "digitpart [c] = isdigit c"
| "digitpart (c # d # cs) =
     (isdigit c \<and> (if d = CHR ''_'' then digitpart cs else digitpart (d # cs)))"

definition digitpart_val :: "string \<Rightarrow> nat" where
  "digitpart_val s = digits_val (filter (\<lambda>c. c \<noteq> CHR ''_'') s)"

text \<open>A leading sign: whether it is a minus, and the rest of the string.\<close>

fun split_sign :: "string \<Rightarrow> bool \<times> string" where
  "split_sign [] = (False, [])"
| "split_sign (c # cs) =
     (if c = CHR ''-'' then (True, cs) else if c = CHR ''+'' then (False, cs)
      else (False, c # cs))"

text \<open>\<^verbatim>\<open>int(s)\<close> in base 10: surrounding whitespace is dropped, then an optional sign and a
  digit part. \<open>None\<close> is \<^verbatim>\<open>ValueError\<close>. (The interpreter's limit on the number of digits of
  such a string, 4300 by default since Python 3.11, is not modelled.)\<close>

definition py_int :: "string \<Rightarrow> int option" where
  "py_int s =
     (case split_sign (strip s) of
        (neg, body) \<Rightarrow>
          if digitpart body
          then Some (if neg then - int (digitpart_val body) else int (digitpart_val body))
          else None)"

text \<open>The mantissa \<^verbatim>\<open>[digitpart] "." digitpart | digitpart ["."]\<close> of a float literal.\<close>

definition parse_number :: "string \<Rightarrow> rat option" where
  "parse_number s =
     (let ip = takeWhile (\<lambda>c. c \<noteq> CHR ''.'') s; rest = dropWhile (\<lambda>c. c \<noteq> CHR ''.'') s in
      case rest of
        [] \<Rightarrow> if digitpart ip then Some (of_nat (digitpart_val ip)) else None
      | dot # fp \<Rightarrow>
          if fp = [] then (if digitpart ip then Some (of_nat (digitpart_val ip)) else None)
          else if (ip = [] \<or> digitpart ip) \<and> digitpart fp
          then Some (of_nat (digitpart_val ip) +
                     of_nat (digitpart_val fp) / 10 ^ length (filter (\<lambda>c. c \<noteq> CHR ''_'') fp))
          else None)"

text \<open>The exponent \<^verbatim>\<open>("e" | "E") [sign] digitpart\<close>, given from the letter on; an absent
  exponent is 0.\<close>

definition parse_exponent :: "string \<Rightarrow> int option" where
  "parse_exponent s =
     (case s of
        [] \<Rightarrow> Some 0
      | e # ex \<Rightarrow>
          (case split_sign ex of
             (neg, body) \<Rightarrow>
               if digitpart body
               then Some (if neg then - int (digitpart_val body) else int (digitpart_val body))
               else None))"

definition pow10 :: "int \<Rightarrow> rat" where
  "pow10 k = (if 0 \<le> k then 10 ^ nat k else 1 / 10 ^ nat (- k))"

definition is_exp_letter :: "char \<Rightarrow> bool" where
  "is_exp_letter c = (c = CHR ''e'' \<or> c = CHR ''E'')"

definition parse_floatnumber :: "string \<Rightarrow> rat option" where
  "parse_floatnumber s =
     (case parse_number (takeWhile (\<lambda>c. \<not> is_exp_letter c) s) of
        None \<Rightarrow> None
      | Some m \<Rightarrow>
          (case parse_exponent (dropWhile (\<lambda>c. \<not> is_exp_letter c) s) of
             None \<Rightarrow> None
           | Some k \<Rightarrow> Some (m * pow10 k)))"

text \<open>\<^verbatim>\<open>float(s)\<close>: surrounding whitespace is dropped; then an optional sign and one of
  \<^verbatim>\<open>inf\<close>, \<^verbatim>\<open>infinity\<close>, \<^verbatim>\<open>nan\<close> (in any case) or a decimal number with an optional exponent,
  which is rounded to the nearest double. \<open>None\<close> is \<^verbatim>\<open>ValueError\<close>.\<close>

definition py_float :: "string \<Rightarrow> pyfloat option" where
  "py_float s =
     (case split_sign (strip s) of
        (neg, body) \<Rightarrow>
          if lower body = ''inf'' \<or> lower body = ''infinity''
          then Some (if neg then MinusInf else PlusInf)
          else if lower body = ''nan'' then Some NaN
          else (case parse_floatnumber body of
                  None \<Rightarrow> None
                | Some q \<Rightarrow> Some (to_double (if neg then - q else q))))"

section \<open>The field decoders\<close>

text \<open>A Python dictionary is an association list with one pair per key, in the order in
  which the keys were first stored; \<^verbatim>\<open>d[k] = v\<close> is \<^const>\<open>AList.update\<close>, which overwrites the
  value of a key that is present and appends a new key otherwise.\<close>

definition get_description :: "node \<Rightarrow> py_error + string" where
  "get_description content_main = find_text (Some content_main) [TagName ''h1'']"

definition ignore_properties :: "string list" where
  "ignore_properties = [''bolt depot'', ''category'', ''subcategory'']"

text \<open>The loop of \<^verbatim>\<open>_get_parameters\<close> over the rows, with the dictionary it fills.\<close>

fun parameters_loop ::
  "node list \<Rightarrow> (string \<times> string) list \<Rightarrow> py_error + (string \<times> string) list" where
  "parameters_loop [] parameters = Inr parameters"
| "parameters_loop (row # rows) parameters =
     (case find_text (Some row) [TagAttrs ''td'' [(''class'', ''property-name'')]] of
        Inl e \<Rightarrow> Inl e
      | Inr property_name \<Rightarrow>
          (case find_text (Some row) [TagAttrs ''td'' [(''class'', ''property-value'')]] of
             Inl e \<Rightarrow> Inl e
           | Inr property_value \<Rightarrow>
               if property_name = [] \<or> property_value = [] then parameters_loop rows parameters
               else if list_ex (\<lambda>property. sublist property (lower property_name))
                         ignore_properties
               then parameters_loop rows parameters
               else parameters_loop rows
                      (AList.update property_name property_value parameters)))"

definition get_parameters :: "node \<Rightarrow> py_error + (string \<times> string) list" where
  "get_parameters content_main =
     (case find_tag (Some content_main)
             [TagAttrs ''table'' [(''class'', ''product-details-table'')]] of
        None \<Rightarrow> Inr []
      | Some product_details_table \<Rightarrow>
          (let product_details_rows = bs_find_all product_details_table ''tr'' [] in
           if product_details_rows = [] then Inr []
           else parameters_loop product_details_rows []))"

text \<open>The body of the loop of \<^verbatim>\<open>_get_pricing\<close> once both labels are non-empty: the lot size
  and the unit price of the cell, \<open>None\<close> where the source continues with the next cell
  after a \<^verbatim>\<open>ValueError\<close>. The division is outside both \<^verbatim>\<open>try\<close> blocks.\<close>

definition price_break_entry :: "string \<Rightarrow> string \<Rightarrow> py_error + (int \<times> pyfloat) option" where
  "price_break_entry price_break price_per_qty =
     (case (if price_per_qty = ''/ ea'' then Some 1
            else py_int (filter (\<lambda>c. c \<noteq> CHR '','') (drop 2 price_per_qty))) of
        None \<Rightarrow> Inr None
      | Some adjusted_quantity \<Rightarrow>
          (case py_float (drop 1 price_break) of
             None \<Rightarrow> Inr None
           | Some purchase_price \<Rightarrow>
               (case truediv purchase_price adjusted_quantity of
                  Inl e \<Rightarrow> Inl e
                | Inr unit_price \<Rightarrow> Inr (Some (adjusted_quantity, round3 unit_price)))))"

fun pricing_loop ::
  "node list \<Rightarrow> (int \<times> pyfloat) list \<Rightarrow> py_error + (int \<times> pyfloat) list" where
  "pricing_loop [] price_breaks = Inr price_breaks"
| "pricing_loop (cell # cells) price_breaks =
     (case find_text (Some cell) [TagAttrs ''span'' [(''class'', ''price-break'')]] of
        Inl e \<Rightarrow> Inl e
      | Inr price_break \<Rightarrow>
          (case find_text (Some cell) [TagAttrs ''span'' [(''class'', ''perQty'')]] of
             Inl e \<Rightarrow> Inl e
           | Inr price_per_qty \<Rightarrow>
               if price_break = [] \<or> price_per_qty = [] then pricing_loop cells price_breaks
               else (case price_break_entry price_break price_per_qty of
                       Inl e \<Rightarrow> Inl e
                     | Inr None \<Rightarrow> pricing_loop cells price_breaks
                     | Inr (Some (adjusted_quantity, unit_price)) \<Rightarrow>
                         pricing_loop cells
                           (AList.update adjusted_quantity unit_price price_breaks))))"

definition get_pricing :: "node \<Rightarrow> string \<Rightarrow> py_error + (int \<times> pyfloat) list" where
  "get_pricing content_main part_id =
     (case find_tag (Some content_main) [TagAttrs ''table'' [(''id'', ''product-list-table'')]] of
        None \<Rightarrow> Inr []
      | Some pricing_table \<Rightarrow>
          (case find_tag (Some pricing_table) [TagAttrs ''tr'' [(''id'', ''p'' @ part_id)]] of
             None \<Rightarrow> Inr []
           | Some pricing_row \<Rightarrow>
               (let pricing_cells = bs_find_all pricing_row ''td'' [] in
                if pricing_cells = [] then Inr []
                else pricing_loop pricing_cells [])))"

definition API_BASE_URL :: string where
  "API_BASE_URL = ''https://boltdepot.com/''"

definition PRODUCT_URL :: "string \<Rightarrow> string" where
  "PRODUCT_URL part_id = API_BASE_URL @ ''Product-Details?product='' @ part_id"

definition BARCODE_URL :: "string \<Rightarrow> string" where
  "BARCODE_URL part_id = ''http://boltdepot.com/Product-Details.aspx?product='' @ part_id"

text \<open>\<^verbatim>\<open>image_tag.get("src")\<close> is the attribute's value or \<^verbatim>\<open>None\<close>; an empty or non-string
  value gives the empty URL.\<close>

definition get_image_url :: "node \<Rightarrow> string" where
  "get_image_url content_main =
     (case find_tag (Some content_main) [TagAttrs ''div'' [(''class'', ''row'')], TagName ''img''] of
        Some (Tag name attrs cs) \<Rightarrow>
          (case map_of attrs ''src'' of
             Some (Str url) \<Rightarrow> if url = [] then [] else API_BASE_URL @ url
           | _ \<Rightarrow> [])
      | _ \<Rightarrow> [])"

section \<open>The record and the search\<close>

record api_part =
  description :: string
  image_url :: string
  datasheet_url :: string
  supplier_link :: string
  SKU :: string
  manufacturer :: string
  manufacturer_link :: string
  MPN :: string
  quantity_available :: nat
  packaging :: string
  category_path :: "string list"
  parameters :: "(string \<times> string) list"
  price_breaks :: "(int \<times> pyfloat) list"
  currency :: string
  barcode :: string

definition content_main_step :: step where
  "content_main_step = TagAttrs ''div'' [(''id'', ''content-main'')]"

definition is_product_page :: "node \<Rightarrow> py_error + bool" where
  "is_product_page soup =
     (case find_text (Some soup) [content_main_step, TagName ''a''] of
        Inl e \<Rightarrow> Inl e
      | Inr text \<Rightarrow> Inr (lower text = ''product catalog''))"

text \<open>\<^verbatim>\<open>_scrape_api_part\<close>: \<open>Inr None\<close> is the return value \<^verbatim>\<open>None\<close>. The decoders run in the
  order of the source, and an exception of one of them ends the call. (The local variables
  carry a prime, since the fields of the record have their names.)\<close>

definition scrape_api_part :: "node \<Rightarrow> string \<Rightarrow> py_error + api_part option" where
  "scrape_api_part soup part_id =
     (case find_tag (Some soup) [content_main_step] of
        None \<Rightarrow> Inr None
      | Some content_main \<Rightarrow>
          (case get_description content_main of
             Inl e \<Rightarrow> Inl e
           | Inr description' \<Rightarrow>
               if description' = [] then Inr None
               else (case get_pricing content_main part_id of
                       Inl e \<Rightarrow> Inl e
                     | Inr price_breaks' \<Rightarrow>
                         (let image_url' = get_image_url content_main in
                          case get_parameters content_main of
                            Inl e \<Rightarrow> Inl e
                          | Inr parameters' \<Rightarrow>
                              (case get_category_path content_main of
                                 Inl e \<Rightarrow> Inl e
                               | Inr category_path' \<Rightarrow>
                                   if length category_path' = 0 then Inr None
                                   else Inr (Some
                                     \<lparr>description = description',
                                      image_url = image_url',
                                      datasheet_url = [],
                                      supplier_link = PRODUCT_URL part_id,
                                      SKU = part_id,
                                      manufacturer = ''BoltDepot'',
                                      manufacturer_link = PRODUCT_URL part_id,
                                      MPN = part_id,
                                      quantity_available = 0,
                                      packaging = [],
                                      category_path = category_path',
                                      parameters = parameters',
                                      price_breaks = price_breaks',
                                      currency = ''USD'',
                                      barcode = BARCODE_URL part_id\<rparr>))))))"

text \<open>The fetch is outside the repository: \<open>scrape i\<close> is what the \<open>i\<close>-th call of \<^verbatim>\<open>scrape\<close>
  returned, \<open>None\<close> for a response that counts as false and \<open>Some soup\<close> for one whose
  content parses to \<open>soup\<close>. The loop \<^verbatim>\<open>for _ in range(3)\<close> takes the first response.\<close>

fun first_response :: "(nat \<Rightarrow> node option) \<Rightarrow> nat list \<Rightarrow> node option" where
  "first_response scrape [] = None"
| "first_response scrape (i # attempts) =
     (case scrape i of
        Some product_page_result \<Rightarrow> Some product_page_result
      | None \<Rightarrow> first_response scrape attempts)"

text \<open>\<^verbatim>\<open>search\<close> returns the list of parts and their number; the second component of the
  result is the list of the warnings it has emitted.\<close>

definition search ::
  "(nat \<Rightarrow> node option) \<Rightarrow> string \<Rightarrow> py_error + (api_part list \<times> nat) \<times> string list" where
  "search scrape search_term =
     (case first_response scrape [0, 1, 2] of
        None \<Rightarrow>
          Inr (([], 0),
               [''failed to search part at BoltDepot (url '' @ PRODUCT_URL search_term @
                '' did not respond)''])
      | Some soup \<Rightarrow>
          (case is_product_page soup of
             Inl e \<Rightarrow> Inl e
           | Inr valid \<Rightarrow>
               if \<not> valid then Inr (([], 0), [])
               else (case scrape_api_part soup search_term of
                       Inl e \<Rightarrow> Inl e
                     | Inr None \<Rightarrow>
                         Inr (([], 0),
                              [''failed to parse found part at BoltDepot (url '' @
                               PRODUCT_URL search_term @ '')''])
                     | Inr (Some part) \<Rightarrow> Inr (([part], 1), []))))"

section \<open>Pages used as concrete inputs\<close>

definition link :: "string \<Rightarrow> node" where
  "link text = Tag ''a'' [(''href'', Str ''/Catalog'')] [NavigableString text]"

definition breadcrumb :: "string list \<Rightarrow> node" where
  "breadcrumb texts = Tag ''nav'' [] (map link texts)"

definition content_main_of :: "node list \<Rightarrow> node" where
  "content_main_of children = Tag ''div'' [(''id'', Str ''content-main'')] children"

definition document :: "node list \<Rightarrow> node" where
  "document children = Tag ''[document]'' [] children"

definition price_cell_node :: "string \<Rightarrow> string \<Rightarrow> node" where
  "price_cell_node price_label quantity_label =
     Tag ''td'' []
       [Tag ''span'' [(''class'', StrList [''price-break''])] [NavigableString price_label],
        Tag ''span'' [(''class'', StrList [''perQty''])] [NavigableString quantity_label]]"

definition pricing_table_node :: "string \<Rightarrow> node list \<Rightarrow> node" where
  "pricing_table_node part_id cells =
     Tag ''table'' [(''id'', Str ''product-list-table'')]
       [Tag ''tr'' [(''id'', Str (''p'' @ part_id))] cells]"

definition details_row_node :: "node list \<Rightarrow> node list \<Rightarrow> node" where
  "details_row_node name_children value_children =
     Tag ''tr'' []
       [Tag ''td'' [(''class'', StrList [''property-name''])] name_children,
        Tag ''td'' [(''class'', StrList [''property-value''])] value_children]"

definition details_table_node :: "node list \<Rightarrow> node" where
  "details_table_node rows =
     Tag ''table'' [(''class'', StrList [''product-details-table''])] rows"

section \<open>Navigation and text extraction\<close>

lemma find_tag_is_tag: "find_tag tag args = Some t \<Longrightarrow> \<exists>name attrs cs. t = Tag name attrs cs"
  by (induction tag args rule: find_tag.induct) (auto split: option.splits)

lemma find_text_unresolved: "find_tag tag args = None \<Longrightarrow> find_text tag args = Inr []"
  by (simp add: find_text_def)

lemma find_text_first_child:
  "find_tag tag args = Some (Tag name attrs (first # rest)) \<Longrightarrow>
   find_text tag args = Inr (strip (collapse_ws (get_text first)))"
  by (simp add: find_text_def)

lemma find_text_no_children:
  "find_tag tag args = Some (Tag name attrs []) \<Longrightarrow> find_text tag args = Inl IndexError"
  by (simp add: find_text_def)

lemma find_text_not_attribute_error: "find_text tag args \<noteq> Inl AttributeError"
proof (cases "find_tag tag args")
  case None
  then show ?thesis
    by (simp add: find_text_def)
next
  case (Some t)
  then obtain name attrs cs where "t = Tag name attrs cs"
    using find_tag_is_tag by blast
  with Some show ?thesis
    by (cases cs) (simp_all add: find_text_def)
qed

text \<open>The normalisation of the text: \<^const>\<open>collapse_ws\<close> keeps the characters that are not
  whitespace, turns whitespace into spaces and leaves no two of them side by side;
  \<^const>\<open>strip\<close> leaves no whitespace at either end.\<close>

lemma space_isspace: "isspace CHR '' ''"
  by (simp add: isspace_def)

lemma collapse_ws_keeps_text:
  "filter (\<lambda>c. \<not> isspace c) (collapse_ws s) = filter (\<lambda>c. \<not> isspace c) s"
proof (induction s rule: collapse_ws.induct)
  case 1
  then show ?case by simp
next
  case (2 c cs)
  have "filter (\<lambda>c. \<not> isspace c) (dropWhile isspace cs) = filter (\<lambda>c. \<not> isspace c) cs"
    by (induction cs) auto
  with 2 show ?case
    by (simp add: space_isspace)
qed

lemma collapse_ws_only_spaces:
  "c \<in> set (collapse_ws s) \<Longrightarrow> isspace c \<Longrightarrow> c = CHR '' ''"
proof (induction s rule: collapse_ws.induct)
  case 1
  then show ?case by simp
next
  case (2 d ds)
  then show ?case
    by (auto split: if_splits)
qed

lemma collapse_ws_hd:
  "collapse_ws s = a # rest \<Longrightarrow> isspace a \<Longrightarrow> s \<noteq> [] \<and> isspace (hd s)"
  by (cases s) (auto split: if_splits)

lemma collapse_ws_no_runs:
  "collapse_ws s = xs @ a # b # ys \<Longrightarrow> \<not> (isspace a \<and> isspace b)"
proof (induction s arbitrary: xs rule: collapse_ws.induct)
  case 1
  then show ?case by simp
next
  case (2 c cs)
  show ?case
  proof (cases "isspace c")
    case True
    then have eq: "CHR '' '' # collapse_ws (dropWhile isspace cs) = xs @ a # b # ys"
      using 2(3) by simp
    show ?thesis
    proof (cases xs)
      case Nil
      with eq have "collapse_ws (dropWhile isspace cs) = b # ys"
        by simp
      then have "isspace b \<Longrightarrow> dropWhile isspace cs \<noteq> [] \<and> isspace (hd (dropWhile isspace cs))"
        by (rule collapse_ws_hd)
      then have "\<not> isspace b"
        using hd_dropWhile [of isspace cs] by auto
      then show ?thesis by simp
    next
      case (Cons x xs')
      with eq have "collapse_ws (dropWhile isspace cs) = xs' @ a # b # ys"
        by simp
      with 2(1) [OF True] show ?thesis .
    qed
  next
    case False
    then have eq: "c # collapse_ws cs = xs @ a # b # ys"
      using 2(3) by simp
    show ?thesis
    proof (cases xs)
      case Nil
      with eq False show ?thesis by simp
    next
      case (Cons x xs')
      with eq have "collapse_ws cs = xs' @ a # b # ys"
        by simp
      with 2(2) [OF False] show ?thesis .
    qed
  qed
qed

lemma strip_trimmed:
  assumes "strip s \<noteq> []"
  shows "\<not> isspace (hd (strip s)) \<and> \<not> isspace (last (strip s))"
proof -
  define t where "t = dropWhile isspace s"
  define u where "u = dropWhile isspace (rev t)"
  have s: "strip s = rev u"
    by (simp add: strip_def t_def u_def)
  have u: "u \<noteq> []"
    using assms s by simp
  then have "\<not> isspace (hd u)"
    unfolding u_def by (rule hd_dropWhile)
  then have l: "\<not> isspace (last (strip s))"
    using u by (simp add: s last_rev)
  have "rev t = takeWhile isspace (rev t) @ u"
    by (simp add: u_def)
  then have "t = rev u @ rev (takeWhile isspace (rev t))"
    by (metis rev_append rev_rev_ident)
  then have "hd t = hd (rev u)" and "t \<noteq> []"
    using u by (metis hd_append2 rev_is_Nil_conv, metis append_is_Nil_conv rev_is_Nil_conv)
  moreover have "\<not> isspace (hd t)"
    using \<open>t \<noteq> []\<close> unfolding t_def by (rule hd_dropWhile)
  ultimately show ?thesis
    using l by (simp add: s)
qed

text \<open>
  Claim C3. The claim: \<^verbatim>\<open>_find_text\<close> returns the empty string when the path does not
  resolve or the resolved node has no content children, and the normalised text of the
  first content child otherwise. The first and the last part hold
  (\<open>find_text_unresolved\<close>, \<open>find_text_first_child\<close> and the lemmas on the normalisation).
  For a node without children the source evaluates \<^verbatim>\<open>found_tag.contents[0]\<close> with no guard:
  on a row whose cell \<^verbatim>\<open><td></td>\<close> is empty, the lookup of the cell raises \<^verbatim>\<open>IndexError\<close>
  instead of returning the empty string.
\<close>

theorem find_text_empty_cell_raises:
  "find_text (Some (Tag ''tr'' [] [Tag ''td'' [(''class'', StrList [''property-name''])] []]))
     [TagAttrs ''td'' [(''class'', ''property-name'')]] = Inl IndexError"
  by code_simp

section \<open>The category path\<close>

lemma collect_category_path_filter:
  "collect_category_path tags acc =
   acc @ map get_text (filter (\<lambda>tag. lower (get_text tag) \<noteq> ''product catalog'') tags)"
  by (induction tags arbitrary: acc) auto

text \<open>Where neither of the two checks meets an empty list, the decoder returns the links'
  texts without the root entries, without a trailing size, and then without a trailing
  \<^verbatim>\<open>Size: \<close> label.\<close>

lemma get_category_path_returns:
  assumes "find_tag (Some content_main) [TagName ''nav''] = Some nav"
    and "collect_category_path (bs_find_all nav ''a'' []) [] = kept"
    and "kept \<noteq> []"
    and "size_pattern (last kept) \<Longrightarrow> butlast kept \<noteq> []"
  shows "get_category_path content_main =
     Inr (let trimmed = (if size_pattern (last kept) then butlast kept else kept)
          in if prefix ''Size: '' (last trimmed) then butlast trimmed else trimmed)"
proof -
  have "bs_find_all nav ''a'' [] \<noteq> []"
    using assms(2,3) by auto
  then show ?thesis
    using assms by (auto simp: get_category_path_def pop_size_def pop_size_label_def Let_def)
qed

lemma get_category_path_no_nav:
  "find_tag (Some content_main) [TagName ''nav''] = None \<Longrightarrow>
   get_category_path content_main = Inr []"
  by (simp add: get_category_path_def)

text \<open>A breadcrumb with links that are all root entries leaves nothing to index.\<close>

lemma get_category_path_only_root:
  assumes "find_tag (Some content_main) [TagName ''nav''] = Some nav"
    and "bs_find_all nav ''a'' [] \<noteq> []"
    and "list_all (\<lambda>tag. lower (get_text tag) = ''product catalog'') (bs_find_all nav ''a'' [])"
  shows "get_category_path content_main = Inl IndexError"
proof -
  have "filter (\<lambda>tag. lower (get_text tag) \<noteq> ''product catalog'') (bs_find_all nav ''a'' []) = []"
    using assms(3) by (simp add: filter_empty_conv list_all_iff)
  then have "collect_category_path (bs_find_all nav ''a'' []) [] = []"
    by (simp add: collect_category_path_filter)
  then show ?thesis
    using assms(1,2) by (simp add: get_category_path_def pop_size_def)
qed

text \<open>The two cases in which the decoder indexes an empty list: nothing is left after
  the root entries, or a size was the only entry left.\<close>

lemma get_category_path_raises:
  assumes "find_tag (Some content_main) [TagName ''nav''] = Some nav"
    and "bs_find_all nav ''a'' [] \<noteq> []"
    and "collect_category_path (bs_find_all nav ''a'' []) [] = kept"
    and "kept = [] \<or> (size_pattern (last kept) \<and> butlast kept = [])"
  shows "get_category_path content_main = Inl IndexError"
  using assms by (auto simp: get_category_path_def pop_size_def pop_size_label_def)

text \<open>
  Claim C1. The claim: when the breadcrumb holds only root entries (``Product Catalog''),
  \<^verbatim>\<open>_get_category_path\<close> returns the empty list and raises nothing. The source has no such
  guard: the list is empty when \<^verbatim>\<open>category_path[-1]\<close> is evaluated, and the call raises
  \<^verbatim>\<open>IndexError\<close>. The caller's test \<^verbatim>\<open>len(category_path) == 0\<close> shows that the empty list is
  the result the decoder is meant to give.
\<close>

theorem get_category_path_root_only_raises:
  "get_category_path (content_main_of [breadcrumb [''Product Catalog'']]) = Inl IndexError"
  by code_simp

text \<open>
  Claim C6. The claim: for every breadcrumb the decoder collects the links' texts, omits
  the root entries, drops a trailing size and then a trailing \<^verbatim>\<open>Size: \<close> label. This is what
  the source does while a last element exists (\<open>get_category_path_returns\<close>), and the
  breadcrumb of the claim decodes to \<^verbatim>\<open>["Bolts", "Hex Bolts"]\<close>
  (\<open>get_category_path_hex_bolts\<close>). When the size was the only entry left, the second check
  indexes the list that the first has emptied, and the call raises \<^verbatim>\<open>IndexError\<close>
  instead of returning the empty list.
\<close>

theorem get_category_path_size_only_raises:
  "get_category_path (content_main_of [breadcrumb [''Product Catalog'', ''3mm x 0.5mm'']])
   = Inl IndexError"
  by code_simp

lemma get_category_path_hex_bolts:
  "get_category_path
     (content_main_of [breadcrumb [''Product Catalog'', ''Bolts'', ''Hex Bolts'', ''3mm x 0.5mm'']])
   = Inr [''Bolts'', ''Hex Bolts'']"
  by code_simp

text \<open>
  Claim C4, as stated: a trailing element ``Size: 1/4 inch'' is dropped, and it does not
  match the primary size pattern. The second half fails: the text contains \<^verbatim>\<open>inch\<close>, so the
  pattern matches and it is the first check that drops the element.
\<close>

theorem size_label_matches_size_pattern:
  "size_pattern ''Size: 1/4 inch'' \<and>
   pop_size [''Bolts'', ''Size: 1/4 inch''] = Inr [''Bolts'']"
  by code_simp

text \<open>
  Claim C4, amended: for every breadcrumb whose remaining elements (after the root entries
  are dropped) end with ``Size: 1/4 inch'' after at least one other element, the element
  matches the primary size pattern and the decoder drops it; the element before it is
  dropped as well when it starts with \<^verbatim>\<open>Size: \<close>.
\<close>

theorem get_category_path_size_label:
  assumes "find_tag (Some content_main) [TagName ''nav''] = Some nav"
    and "collect_category_path (bs_find_all nav ''a'' []) [] = kept @ [''Size: 1/4 inch'']"
    and "kept \<noteq> []"
  shows "size_pattern ''Size: 1/4 inch'' \<and>
     get_category_path content_main =
       Inr (if prefix ''Size: '' (last kept) then butlast kept else kept)"
proof -
  have m: "size_pattern ''Size: 1/4 inch''"
    by code_simp
  have "bs_find_all nav ''a'' [] \<noteq> []"
    using assms(2) by auto
  then show ?thesis
    using assms m by (simp add: get_category_path_def pop_size_def pop_size_label_def)
qed

theorem get_category_path_size_label_witness:
  "get_category_path
     (content_main_of [breadcrumb [''Product Catalog'', ''Bolts'', ''Size: 1/4 inch'']])
   = Inr [''Bolts'']"
proof -
  let ?cm = "content_main_of [breadcrumb [''Product Catalog'', ''Bolts'', ''Size: 1/4 inch'']]"
  let ?nav = "breadcrumb [''Product Catalog'', ''Bolts'', ''Size: 1/4 inch'']"
  have 1: "find_tag (Some ?cm) [TagName ''nav''] = Some ?nav"
    by code_simp
  have 2: "collect_category_path (bs_find_all ?nav ''a'' []) [] = [''Bolts''] @ [''Size: 1/4 inch'']"
    by code_simp
  have 3: "[''Bolts''] \<noteq> ([] :: string list)"
    by simp
  have 4: "\<not> prefix ''Size: '' (last [''Bolts''])"
    by code_simp
  show ?thesis
    using get_category_path_size_label [OF 1 2 3] 4 by simp
qed

text \<open>When ``Size: 1/4 inch'' is the only element left, the second check finds the list
  empty.\<close>

lemma get_category_path_size_label_only_raises:
  "get_category_path (content_main_of [breadcrumb [''Product Catalog'', ''Size: 1/4 inch'']])
   = Inl IndexError"
  by code_simp

section \<open>Parsing numbers\<close>

text \<open>The exponent that the rounding to a double starts from is the binary exponent of the
  number.\<close>

lemma floor_log2_bounds:
  assumes "0 < x"
  shows "pow2 (floor_log2 x) \<le> x \<and> x < pow2 (floor_log2 x + 1)"
proof (cases "1 \<le> x")
  case True
  define n where "n = \<lfloor>x\<rfloor>"
  define k where "k = bitlen n - 1"
  have n: "0 < n" "of_int n \<le> x" "x < of_int n + 1"
    using True floor_correct [of x] by (simp_all add: n_def)
  have k0: "0 \<le> k"
    using n(1) by (simp add: k_def bitlen_alt_def)
  have b: "2 ^ nat k \<le> n" "n < 2 ^ nat (k + 1)"
    using bitlen_bounds [OF n(1)] by (simp_all add: k_def)
  have fl: "floor_log2 x = k"
    using True by (simp add: floor_log2_def k_def n_def)
  have "pow2 k = of_int (2 ^ nat k)"
    using k0 by (simp add: pow2_def)
  also have "\<dots> \<le> of_int n"
    using b(1) by (simp only: of_int_le_iff)
  finally have lo: "pow2 k \<le> x"
    using n(2) by linarith
  have "n + 1 \<le> 2 ^ nat (k + 1)"
    using b(2) by linarith
  then have "(of_int (n + 1) :: rat) \<le> of_int (2 ^ nat (k + 1))"
    by (simp only: of_int_le_iff)
  moreover have "pow2 (k + 1) = of_int (2 ^ nat (k + 1))"
    using k0 by (simp add: pow2_def)
  ultimately have "x < pow2 (k + 1)"
    using n(3) by simp
  with lo fl show ?thesis
    by simp
next
  case False
  define y where "y = 1 / x"
  define n where "n = \<lceil>y\<rceil> - 1"
  define j where "j = bitlen n"
  have y1: "1 < y"
    using False assms by (simp add: y_def)
  have n: "0 < n" "of_int n < y" "y \<le> of_int n + 1"
    using y1 by (simp_all add: n_def less_ceiling_iff) linarith+
  have j1: "1 \<le> j"
    using n(1) by (simp add: j_def bitlen_alt_def)
  have b: "2 ^ nat (j - 1) \<le> n" "n < 2 ^ nat j"
    using bitlen_bounds [OF n(1)] by (simp_all add: j_def)
  have fl: "floor_log2 x = - j"
    using False by (simp add: floor_log2_def j_def n_def y_def)
  have "(of_int (2 ^ nat (j - 1)) :: rat) \<le> of_int n"
    using b(1) by (simp only: of_int_le_iff)
  moreover have "(of_int (2 ^ nat (j - 1)) :: rat) = 2 ^ nat (j - 1)"
    by simp
  ultimately have lo: "2 ^ nat (j - 1) < y"
    using n(2) by linarith
  have "n + 1 \<le> 2 ^ nat j"
    using b(2) by linarith
  then have "(of_int (n + 1) :: rat) \<le> of_int (2 ^ nat j)"
    by (simp only: of_int_le_iff)
  moreover have "(of_int (2 ^ nat j) :: rat) = 2 ^ nat j" "(of_int (n + 1) :: rat) = of_int n + 1"
    by simp_all
  ultimately have hi: "y \<le> 2 ^ nat j"
    using n(3) by linarith
  have x: "x = 1 / y" "0 < y"
    using assms by (simp_all add: y_def)
  have p1: "pow2 (- j) = 1 / 2 ^ nat j"
    using j1 by (simp add: pow2_def)
  have p2: "pow2 (- j + 1) = 1 / 2 ^ nat (j - 1)"
  proof (cases "j = 1")
    case True
    then show ?thesis by (simp add: pow2_def)
  next
    case False
    with j1 have "- j + 1 < 0" "nat (- (- j + 1)) = nat (j - 1)"
      by simp_all
    then show ?thesis by (simp add: pow2_def)
  qed
  have "1 / 2 ^ nat j \<le> 1 / y"
    using hi x(2) by (simp add: frac_le)
  moreover have "1 / y < 1 / 2 ^ nat (j - 1)"
    using lo by (simp add: frac_less2)
  ultimately have "pow2 (- j) \<le> x \<and> x < pow2 (- j + 1)"
    unfolding p1 p2 x(1) by simp
  then show ?thesis
    unfolding fl .
qed









text \<open>An integer below \<open>2^53\<close> is a double, so converting it to a float changes nothing.\<close>

lemma round_half_even_of_int: "round_half_even (of_int j) = j"
  by (simp add: round_half_even_def)

lemma to_double_of_int:
  assumes "0 < n" "n < 2 ^ 53"
  shows "to_double (of_int n) = Fin (of_int n)"
proof -
  define k where "k = bitlen n - 1"
  have b: "2 ^ nat k \<le> n"
    using bitlen_bounds [OF assms(1)] by (simp add: k_def)
  have k0: "0 \<le> k"
    using assms(1) by (simp add: k_def bitlen_alt_def)
  have lt: "(2::int) ^ nat k < 2 ^ 53"
    using b assms(2) by linarith
  have "nat k < 53"
  proof (rule ccontr)
    assume "\<not> nat k < 53"
    then have "53 \<le> nat k"
      by simp
    then have "(2::int) ^ 53 \<le> 2 ^ nat k"
      by (rule power_increasing) simp
    with lt show False
      by simp
  qed
  then have k52: "k \<le> 52"
    by linarith
  define j where "j = nat (52 - k)"
  have fl: "floor_log2 (of_int n) = k"
    using assms(1) by (simp add: floor_log2_def k_def)
  have e: "max (k - 52) (- 1074) = k - 52"
    using k0 by simp
  have p: "pow2 (k - 52) = 1 / 2 ^ j"
    using k52 by (auto simp: pow2_def j_def)
  have q: "(of_int n :: rat) / (1 / 2 ^ j) = of_int (n * 2 ^ j)"
    by simp
  have ne: "(of_int n :: rat) \<noteq> 0" "(0 :: rat) < of_int n" "\<bar>of_int n :: rat\<bar> = of_int n"
    using assms(1) by simp_all
  have "\<not> (971 < k - 52 \<or> (k - 52 = 971 \<and> 2 ^ 53 \<le> n * 2 ^ j))"
    using k52 by simp
  then show ?thesis
    unfolding to_double_def Let_def ne fl e p q round_half_even_of_int
    using ne by simp
qed




section \<open>Price breaks\<close>


lemma truediv_small_int:
  assumes "0 < n" "n < 2 ^ 53"
  shows "truediv x n =
     Inr (case x of Fin a \<Rightarrow> to_double (a / of_int n) | PlusInf \<Rightarrow> PlusInf
          | MinusInf \<Rightarrow> MinusInf | NaN \<Rightarrow> NaN)"
  using assms by (simp add: truediv_def to_double_of_int split: pyfloat.splits)





text \<open>Cells that store another lot size, or none, leave the entry of a lot size as it
  is.\<close>

lemma pricing_loop_other_lots:
  assumes "pricing_loop cells breaks = Inr result"
    and "\<And>cell price_label quantity_label unit_price.
           cell \<in> set cells \<Longrightarrow>
           find_text (Some cell) [TagAttrs ''span'' [(''class'', ''price-break'')]] = Inr price_label \<Longrightarrow>
           find_text (Some cell) [TagAttrs ''span'' [(''class'', ''perQty'')]] = Inr quantity_label \<Longrightarrow>
           price_break_entry price_label quantity_label \<noteq> Inr (Some (lot, unit_price))"
  shows "map_of result lot = map_of breaks lot"
  using assms
proof (induction cells arbitrary: breaks)
  case Nil
  then show ?case by simp
next
  case (Cons cell cells)
  obtain price_label where p:
    "find_text (Some cell) [TagAttrs ''span'' [(''class'', ''price-break'')]] = Inr price_label"
    using Cons.prems(1) by (auto split: sum.splits)
  obtain quantity_label where q:
    "find_text (Some cell) [TagAttrs ''span'' [(''class'', ''perQty'')]] = Inr quantity_label"
    using Cons.prems(1) p by (auto split: sum.splits)
  have other: "\<And>unit_price. price_break_entry price_label quantity_label \<noteq> Inr (Some (lot, unit_price))"
    using Cons.prems(2) [OF _ p q] by simp
  have rest: "map_of result lot = map_of breaks' lot"
    if "pricing_loop cells breaks' = Inr result" for breaks'
  proof (rule Cons.IH [OF that])
    fix c pl ql u
    assume "c \<in> set cells"
      and "find_text (Some c) [TagAttrs ''span'' [(''class'', ''price-break'')]] = Inr pl"
      and "find_text (Some c) [TagAttrs ''span'' [(''class'', ''perQty'')]] = Inr ql"
    then show "price_break_entry pl ql \<noteq> Inr (Some (lot, u))"
      using Cons.prems(2) [of c pl ql u] by simp
  qed
  show ?case
  proof (cases "price_label = [] \<or> quantity_label = []")
    case True
    then have "pricing_loop cells breaks = Inr result"
      using Cons.prems(1) p q by auto
    then show ?thesis
      by (rule rest)
  next
    case False
    show ?thesis
    proof (cases "price_break_entry price_label quantity_label")
      case (Inl e)
      then show ?thesis
        using Cons.prems(1) p q False by simp
    next
      case (Inr entry)
      show ?thesis
      proof (cases entry)
        case None
        then have "pricing_loop cells breaks = Inr result"
          using Cons.prems(1) p q False Inr by simp
        then show ?thesis
          by (rule rest)
      next
        case (Some pair)
        obtain n unit_price where pair: "pair = (n, unit_price)"
          by (cases pair)
        have "n \<noteq> lot"
          using other [of unit_price] Inr Some pair by auto
        moreover have "pricing_loop cells (AList.update n unit_price breaks) = Inr result"
          using Cons.prems(1) p q False Inr Some pair by simp
        then have "map_of result lot = map_of (AList.update n unit_price breaks) lot"
          by (rule rest)
        ultimately show ?thesis
          by (simp add: update_conv')
      qed
    qed
  qed
qed



text \<open>
  Claim C10. The price label is decoded by dropping its first character, whatever it is,
  and parsing the rest as a float: two labels that differ only in the first character
  decode alike, and a cell with the price label \<^verbatim>\<open>1.23\<close> (no dollar sign) and the quantity
  label \<^verbatim>\<open>/ ea\<close> is not skipped but gives the entry \<open>1 \<mapsto> 0.23\<close>.
\<close>

theorem price_label_first_character_dropped:
  "price_break_entry (c # rest) quantity_label = price_break_entry (d # rest) quantity_label \<and>
   get_pricing (content_main_of [pricing_table_node ''123'' [price_cell_node ''1.23'' ''/ ea'']])
     ''123''
   = Inr [(1, to_double (23 / 100))]"
proof
  show "price_break_entry (c # rest) quantity_label = price_break_entry (d # rest) quantity_label"
    by (simp add: price_break_entry_def split: option.splits)
  show "get_pricing (content_main_of [pricing_table_node ''123'' [price_cell_node ''1.23'' ''/ ea'']])
     ''123'' = Inr [(1, to_double (23 / 100))]"
    by code_simp
qed

text \<open>A cell with an empty label, or whose quantity or price does not parse, leaves the
  dictionary as it is, and the loop goes on with the next cell. The decoding of the two
  labels itself can only fail in the division.\<close>

lemma pricing_loop_skips:
  assumes "find_text (Some cell) [TagAttrs ''span'' [(''class'', ''price-break'')]] = Inr price_label"
    and "find_text (Some cell) [TagAttrs ''span'' [(''class'', ''perQty'')]] = Inr quantity_label"
    and "price_label = [] \<or> quantity_label = [] \<or>
         price_break_entry price_label quantity_label = Inr None"
  shows "pricing_loop (cell # cells) breaks = pricing_loop cells breaks"
  using assms by auto

lemma price_break_entry_bad_quantity:
  "quantity_label \<noteq> ''/ ea'' \<Longrightarrow>
   py_int (filter (\<lambda>c. c \<noteq> CHR '','') (drop 2 quantity_label)) = None \<Longrightarrow>
   price_break_entry price_label quantity_label = Inr None"
  by (simp add: price_break_entry_def)

lemma price_break_entry_bad_price:
  "py_float (drop 1 price_label) = None \<Longrightarrow>
   price_break_entry price_label quantity_label = Inr None"
  by (simp add: price_break_entry_def split: option.splits)

lemma price_break_entry_raises:
  "price_break_entry price_label quantity_label = Inl e \<Longrightarrow>
   e = ZeroDivisionError \<or> e = OverflowError"
  by (auto simp: price_break_entry_def truediv_def split: option.splits sum.splits pyfloat.splits if_splits)

lemma get_pricing_skips_malformed:
  "get_pricing
     (content_main_of
        [pricing_table_node ''123''
           [price_cell_node ''$abc'' ''/ ea'', price_cell_node ''$1.23'' ''/ each'',
            price_cell_node ''$12.00'' ''/ 1,000'']])
     ''123''
   = Inr [(1000, to_double (12 / 1000))]"
  by code_simp

lemma get_pricing_no_table:
  "find_tag (Some content_main) [TagAttrs ''table'' [(''id'', ''product-list-table'')]] = None \<Longrightarrow>
   get_pricing content_main part_id = Inr []"
  by (simp add: get_pricing_def)

text \<open>
  Claim C7. The claim: a cell whose price or quantity label fails to parse is skipped and
  the other cells are still processed (this holds: \<open>pricing_loop_skips\<close>,
  \<open>get_pricing_skips_malformed\<close>), and no anomaly of a cell leaves \<^verbatim>\<open>_get_pricing\<close> as an
  exception. The source catches \<^verbatim>\<open>ValueError\<close> around the two conversions only. The quantity
  label \<^verbatim>\<open>/ 0\<close> parses to the lot size 0 and the division, which is outside both \<^verbatim>\<open>try\<close>
  blocks, raises \<^verbatim>\<open>ZeroDivisionError\<close>: the call returns no mapping, and the entry of the
  cell before is lost with it.
\<close>

theorem get_pricing_zero_lot_raises:
  "get_pricing
     (content_main_of
        [pricing_table_node ''123'' [price_cell_node ''$1.23'' ''/ ea'', price_cell_node ''$1.00'' ''/ 0'']])
     ''123''
   = Inl ZeroDivisionError"
  by code_simp


text \<open>A cell whose label element is empty ends the call as well, through the unguarded
  \<^verbatim>\<open>contents[0]\<close> of \<^verbatim>\<open>_find_text\<close>.\<close>

lemma get_pricing_empty_label_raises:
  "get_pricing
     (content_main_of
        [pricing_table_node ''123''
           [price_cell_node ''$1.23'' ''/ ea'',
            Tag ''td'' [] [Tag ''span'' [(''class'', StrList [''price-break''])] []]]])
     ''123''
   = Inl IndexError"
  by code_simp

section \<open>Parameters\<close>

text \<open>A row whose two cells give texts is stored exactly when both texts are non-empty and
  the lower-cased name contains none of the ignored substrings; a later row with the same
  name overwrites the value; an absent table and a table without rows give the empty
  dictionary.\<close>

lemma parameters_loop_step:
  assumes "find_text (Some row) [TagAttrs ''td'' [(''class'', ''property-name'')]] = Inr property_name"
    and "find_text (Some row) [TagAttrs ''td'' [(''class'', ''property-value'')]] = Inr property_value"
  shows "parameters_loop (row # rows) params =
     parameters_loop rows
       (if property_name \<noteq> [] \<and> property_value \<noteq> [] \<and>
           \<not> list_ex (\<lambda>property. sublist property (lower property_name)) ignore_properties
        then AList.update property_name property_value params else params)"
  using assms by simp

lemma get_parameters_no_table:
  "find_tag (Some content_main) [TagAttrs ''table'' [(''class'', ''product-details-table'')]] = None
   \<Longrightarrow> get_parameters content_main = Inr []"
  by (simp add: get_parameters_def)

lemma get_parameters_empty_table:
  "find_tag (Some content_main) [TagAttrs ''table'' [(''class'', ''product-details-table'')]]
     = Some product_details_table \<Longrightarrow>
   bs_find_all product_details_table ''tr'' [] = [] \<Longrightarrow>
   get_parameters content_main = Inr []"
  by (simp add: get_parameters_def)

lemma parameters_last_row_wins:
  "map_of (AList.update property_name property_value params) property_name = Some property_value"
  by (simp add: update_conv')

lemma get_parameters_example:
  "get_parameters
     (content_main_of
        [details_table_node
           [details_row_node [NavigableString ''Diameter''] [NavigableString ''3mm''],
            details_row_node [NavigableString ''Bolt Depot product#''] [NavigableString ''123''],
            details_row_node [NavigableString ''Subcategory''] [NavigableString ''Hex''],
            details_row_node [NavigableString ''Diameter''] [NavigableString ''4mm''],
            details_row_node [NavigableString ''Finish''] [NavigableString '' '']]])
   = Inr [(''Diameter'', ''4mm'')]"
  by code_simp

text \<open>
  Claim C8. The claim: a row is in the mapping exactly when both cells resolve to non-empty
  text and the name contains none of the ignored substrings, the last row wins, and an
  absent or empty table gives the empty mapping. All of this holds for rows whose cells
  give texts (the lemmas above). A row with an empty cell \<^verbatim>\<open><td class="property-value"></td>\<close>
  is not left out, though: the lookup of its text raises \<^verbatim>\<open>IndexError\<close>, and the call
  returns no mapping at all.
\<close>

theorem get_parameters_empty_cell_raises:
  "get_parameters
     (content_main_of
        [details_table_node
           [details_row_node [NavigableString ''Diameter''] [NavigableString ''3mm''],
            details_row_node [NavigableString ''Finish''] []]])
   = Inl IndexError"
  by code_simp

section \<open>The search\<close>

text \<open>The validator compares the lower-cased text of the first link of the main content
  region with the root entry; a page it rejects gives no result and no warning, and three
  failed fetches give no result and a warning.\<close>

lemma is_product_page_text:
  "find_text (Some soup) [content_main_step, TagName ''a''] = Inr text \<Longrightarrow>
   is_product_page soup = Inr (lower text = ''product catalog'')"
  by (simp add: is_product_page_def)

lemma is_product_page_no_link:
  "find_tag (Some soup) [content_main_step, TagName ''a''] = None \<Longrightarrow>
   is_product_page soup = Inr False"
  by (simp add: is_product_page_def find_text_def lower_def)

lemma search_not_product_page:
  "first_response scrape [0, 1, 2] = Some soup \<Longrightarrow> is_product_page soup = Inr False \<Longrightarrow>
   search scrape search_term = Inr (([], 0), [])"
  by (simp add: search_def)

lemma search_no_response:
  "scrape 0 = None \<Longrightarrow> scrape 1 = None \<Longrightarrow> scrape 2 = None \<Longrightarrow>
   search scrape search_term =
     Inr (([], 0),
          [''failed to search part at BoltDepot (url '' @ PRODUCT_URL search_term @
           '' did not respond)''])"
  by (simp add: search_def)

text \<open>
  Claim C9. The claim: for every fetched document without the root marker (the text of the
  first link in the main content region, lower-cased, is not ``product catalog''),
  \<^verbatim>\<open>search\<close> returns the empty list, the count 0 and no warning. This holds whenever the
  validator returns (\<open>is_product_page_text\<close>, \<open>is_product_page_no_link\<close>,
  \<open>search_not_product_page\<close>). On a page whose first link has no children, such as the
  anchor \<^verbatim>\<open><a name="top"></a>\<close>, the validator itself raises \<^verbatim>\<open>IndexError\<close> in \<^verbatim>\<open>_find_text\<close>,
  and so does \<^verbatim>\<open>search\<close>.
\<close>

theorem search_empty_first_link_raises:
  "search
     (\<lambda>i. Some (document
        [content_main_of
           [Tag ''a'' [(''name'', Str ''top'')] [],
            Tag ''h1'' [] [NavigableString ''Page not found'']]]))
     ''123''
   = Inl IndexError"
  by code_simp

text \<open>A record that \<^verbatim>\<open>search\<close> returns has a description and a category path, and there is
  at most one. An empty description, or an empty category path once the decoders before
  it have returned, gives no record and the warning of the incomplete page.\<close>

lemma scrape_api_part_complete:
  "scrape_api_part soup part_id = Inr (Some part) \<Longrightarrow>
   description part \<noteq> [] \<and> category_path part \<noteq> []"
  by (auto simp: scrape_api_part_def Let_def split: option.splits sum.splits if_splits)

lemma search_record_complete:
  assumes "search scrape search_term = Inr ((parts, n), warnings)"
  shows "list_all (\<lambda>part. description part \<noteq> [] \<and> category_path part \<noteq> []) parts \<and>
     n = length parts \<and> length parts \<le> 1"
  using assms scrape_api_part_complete
  by (auto simp: search_def split: option.splits sum.splits if_splits)

lemma scrape_api_part_empty_description:
  "find_tag (Some soup) [content_main_step] = Some content_main \<Longrightarrow>
   get_description content_main = Inr [] \<Longrightarrow> scrape_api_part soup part_id = Inr None"
  by (simp add: scrape_api_part_def)

lemma scrape_api_part_empty_category_path:
  "find_tag (Some soup) [content_main_step] = Some content_main \<Longrightarrow>
   get_description content_main = Inr text \<Longrightarrow>
   get_pricing content_main part_id = Inr breaks \<Longrightarrow>
   get_parameters content_main = Inr params \<Longrightarrow>
   get_category_path content_main = Inr [] \<Longrightarrow> scrape_api_part soup part_id = Inr None"
  by (simp add: scrape_api_part_def)

lemma search_incomplete_page:
  "first_response scrape [0, 1, 2] = Some soup \<Longrightarrow> is_product_page soup = Inr True \<Longrightarrow>
   scrape_api_part soup search_term = Inr None \<Longrightarrow>
   search scrape search_term =
     Inr (([], 0),
          [''failed to parse found part at BoltDepot (url '' @ PRODUCT_URL search_term @ '')''])"
  by (simp add: search_def)

text \<open>
  Claim C5. The claim: a returned record has a non-empty description and category path
  (this holds: \<open>search_record_complete\<close>), and a validated page whose description or
  category path decodes to empty gives the empty list, the count 0 and a warning. The
  second part holds where the decoders return (\<open>scrape_api_part_empty_description\<close>,
  \<open>scrape_api_part_empty_category_path\<close>, \<open>search_incomplete_page\<close>). On a validated page
  whose breadcrumb holds the root entry only, the category path has nothing left, but the
  decoder raises \<^verbatim>\<open>IndexError\<close> instead of returning the empty list, and \<^verbatim>\<open>search\<close> raises
  with it: no result, and no warning.
\<close>

theorem search_root_only_breadcrumb_raises:
  "search
     (\<lambda>i. Some (document
        [content_main_of
           [breadcrumb [''Product Catalog''],
            Tag ''h1'' [] [NavigableString ''Product Catalog'']]]))
     ''123''
   = Inl IndexError"
  by code_simp


text \<open>The same happens for a validated page with an empty heading \<^verbatim>\<open><h1></h1>\<close>; a page
  with no heading at all gives the warning.\<close>

lemma search_empty_heading_raises:
  "search
     (\<lambda>i. Some (document
        [content_main_of [Tag ''div'' [] [link ''Product Catalog''], Tag ''h1'' [] []]]))
     ''123''
   = Inl IndexError"
  by code_simp

lemma search_no_heading_warns:
  "search
     (\<lambda>i. Some (document
        [content_main_of [breadcrumb [''Product Catalog'', ''Bolts'']]]))
     ''123''
   = Inr (([], 0),
          [''failed to parse found part at BoltDepot (url https://boltdepot.com/Product-Details?product=123)''])"
  by code_simp


lemma search_no_breadcrumb_warns:
  "search
     (\<lambda>i. Some (document
        [content_main_of
           [Tag ''div'' [] [link ''Product Catalog''],
            Tag ''h1'' [] [NavigableString ''Hex bolt'']]]))
     ''123''
   = Inr (([], 0),
          [''failed to parse found part at BoltDepot (url https://boltdepot.com/Product-Details?product=123)''])"
  by code_simp

text \<open>A complete page gives one record.\<close>

lemma search_complete_page:
  "search
     (\<lambda>i. if i = 0 then None else Some (document
        [content_main_of
           [breadcrumb [''Product Catalog'', ''Bolts'', ''Hex Bolts'', ''3mm x 0.5mm''],
            Tag ''h1'' [] [NavigableString ''Hex  bolt, zinc '', Tag ''small'' [] [NavigableString ''new'']],
            Tag ''div'' [(''class'', StrList [''row''])] [Tag ''img'' [(''src'', Str ''images/123.png'')] []],
            details_table_node [details_row_node [NavigableString ''Diameter''] [NavigableString ''3mm'']],
            pricing_table_node ''123'' [price_cell_node ''$12.00'' ''/ 1,000'']]]))
     ''123''
   = Inr (([\<lparr>description = ''Hex bolt, zinc'',
              image_url = ''https://boltdepot.com/images/123.png'',
              datasheet_url = [],
              supplier_link = ''https://boltdepot.com/Product-Details?product=123'',
              SKU = ''123'',
              manufacturer = ''BoltDepot'',
              manufacturer_link = ''https://boltdepot.com/Product-Details?product=123'',
              MPN = ''123'',
              quantity_available = 0,
              packaging = [],
              category_path = [''Bolts'', ''Hex Bolts''],
              parameters = [(''Diameter'', ''3mm'')],
              price_breaks = [(1000, to_double (12 / 1000))],
              currency = ''USD'',
              barcode = ''http://boltdepot.com/Product-Details.aspx?product=123''\<rparr>], 1), [])"
  by code_simp

end
